theory Spec2Isabelle
  imports Main "HOL-Library.Multiset"
begin

section \<open>JSON documents\<close>

text \<open>
  The Relaton body of a citation is a JSON document (a Python dict of dicts, lists and
  scalars; a \<^verbatim>\<open>jsonb\<close> column in the store). Objects are association lists with
  string keys, looked up with \<^const>\<open>map_of\<close>; numbers are integers.
\<close>

datatype json =
    JNull
  | JBool bool
  | JNum int
  | JStr string
  | JArr "json list"
  | JObj "(string \<times> json) list"

section \<open>Citation records and the record store\<close>

text \<open>
  Modelled from the spec: the model class \<^verbatim>\<open>RefData\<close> (\<^verbatim>\<open>main/models.py\<close> is not
  among the sources). It has the fields that \<^verbatim>\<open>indexed.py\<close> reads: \<^verbatim>\<open>dataset\<close>,
  \<^verbatim>\<open>ref\<close>, \<^verbatim>\<open>body\<close> and \<^verbatim>\<open>representations\<close>, a mapping from a format name to a
  rendered string.
\<close>

record RefData =
  dataset :: string
  ref :: string
  body :: json
  representations :: "(string \<times> string) list"

text \<open>
  The store is the table \<^verbatim>\<open>api_ref_data\<close> together with the number of statements
  executed against it so far. Every database access of the model increments the counter,
  so that a call that leaves the store as it was has issued no query.
\<close>

record store =
  rows :: "RefData list"
  executed :: nat

subsection \<open>Errors\<close>

text \<open>
  Modelled from the spec: \<^verbatim>\<open>RefNotFoundError(message, query_repr)\<close>
  (\<^verbatim>\<open>main/exceptions.py\<close> is not among the sources), which the source raises with
  these two arguments. The other errors are Python's \<^verbatim>\<open>ValueError\<close> and
  \<^verbatim>\<open>TypeError\<close>, the \<^verbatim>\<open>ProgrammingError\<close> that Django raises for a statement the
  store rejects, and an exception of \<^verbatim>\<open>RefDataManager.get\<close> that no handler caught.
\<close>

datatype orm_exception = DoesNotExist | MultipleObjectsReturned

datatype error =
    ValueError string
  | RefNotFoundError string string
  | TypeError string
  | ProgrammingError string
  | Uncaught orm_exception

text \<open>What \<^verbatim>\<open>get_indexed_ref_by_query\<close> returns: \<^verbatim>\<open>result.body\<close> or the BibXML string.\<close>

datatype citation = Relaton json | Bibxml string

subsection \<open>Case-insensitive lookups and \<^verbatim>\<open>Q\<close> objects\<close>

text \<open>
  A \<^verbatim>\<open>Q\<close> object is a filter on records; \<^verbatim>\<open>&\<close> is conjunction. The \<^verbatim>\<open>iexact\<close>
  lookup compares the upper-cased strings (\<^verbatim>\<open>UPPER(col) = UPPER(value)\<close>); the model
  folds the ASCII letters and leaves every other byte as it is.
\<close>

type_synonym Q = "RefData \<Rightarrow> bool"

definition ascii_upper :: "char \<Rightarrow> char" where
  "ascii_upper c =
     (case map_of (zip ''abcdefghijklmnopqrstuvwxyz'' ''ABCDEFGHIJKLMNOPQRSTUVWXYZ'') c of
        Some u \<Rightarrow> u
      | None \<Rightarrow> c)"

definition iexact :: "string \<Rightarrow> string \<Rightarrow> bool" where
  "iexact a b = (map ascii_upper a = map ascii_upper b)"

definition Q_dataset_iexact :: "string \<Rightarrow> Q" where
  "Q_dataset_iexact dataset_id = (\<lambda>r. iexact (dataset r) dataset_id)"

definition Q_ref_iexact :: "string \<Rightarrow> Q" where
  "Q_ref_iexact x = (\<lambda>r. iexact (ref r) x)"

definition Q_and :: "Q \<Rightarrow> Q \<Rightarrow> Q" where
  "Q_and p q = (\<lambda>r. p r \<and> q r)"

text \<open>
  \<^verbatim>\<open>repr(Q)\<close>: the source passes the class \<^verbatim>\<open>Q\<close> itself to \<^verbatim>\<open>repr\<close>, not the
  query at hand, so the value is the class's printed name (\<^verbatim>\<open>CHR 0x27\<close> is the single
  quote).
\<close>

definition repr_Q :: string where
  "repr_Q = ''<class '' @ [CHR 0x27] @ ''django.db.models.query_utils.Q'' @ [CHR 0x27] @ ''>''"

subsection \<open>\<^verbatim>\<open>RefDataManager.get\<close>\<close>

text \<open>
  Django's \<^verbatim>\<open>QuerySet.get\<close>: one statement is executed; exactly one matching row is
  returned, no row raises \<^verbatim>\<open>DoesNotExist\<close>, several raise
  \<^verbatim>\<open>MultipleObjectsReturned\<close>.
\<close>

definition RefDataManager_get :: "store \<Rightarrow> Q \<Rightarrow> (orm_exception + RefData) \<times> store" where
  "RefDataManager_get s q =
     ((case filter q (rows s) of
         [] \<Rightarrow> Inl DoesNotExist
       | [r] \<Rightarrow> Inr r
       | _ # _ # _ \<Rightarrow> Inl MultipleObjectsReturned),
      s\<lparr>executed := Suc (executed s)\<rparr>)"

subsection \<open>\<^verbatim>\<open>try\<close> \<^verbatim>\<open>except\<close>\<close>

text \<open>
  An \<^verbatim>\<open>except\<close> clause names an expression. Python evaluates the clauses in order
  while an exception propagates: a clause whose expression is an exception class handles
  the exception when it is an instance of that class; a clause whose expression is
  anything else (here \<^verbatim>\<open>RefData.MultipleObjectsReturned()\<close>, an instance: the source
  calls the class) raises \<^verbatim>\<open>TypeError\<close> when it is reached. Each clause of the source
  raises a new error, so a handler is the error it raises.
\<close>

datatype except_expr = ExcClass orm_exception | ExcInstance orm_exception

fun handle :: "(except_expr \<times> error) list \<Rightarrow> orm_exception \<Rightarrow> error" where
  "handle [] e = Uncaught e"
| "handle ((ExcClass c, h) # hs) e = (if e = c then h else handle hs e)"
| "handle ((ExcInstance c, h) # hs) e =
     TypeError ''catching classes that do not inherit from BaseException is not allowed''"

subsection \<open>\<^verbatim>\<open>get_indexed_ref_by_query\<close> and \<^verbatim>\<open>get_indexed_ref\<close>\<close>

definition get_indexed_ref_by_query ::
    "store \<Rightarrow> string \<Rightarrow> Q \<Rightarrow> string \<Rightarrow> (error + citation) \<times> store" where
  "get_indexed_ref_by_query s dataset_id query format =
     (if format \<notin> set [''relaton'', ''bibxml'']
      then (Inl (ValueError ''Unknown citation format requested''), s)
      else
        (case RefDataManager_get s (Q_and query (Q_dataset_iexact dataset_id)) of
           (Inl exc, s') \<Rightarrow>
             (Inl (handle
                [(ExcClass DoesNotExist,
                    RefNotFoundError ''Cannot find matching reference in given dataset'' repr_Q),
                 (ExcInstance MultipleObjectsReturned,
                    RefNotFoundError ''Multiple references match query in given dataset'' repr_Q)]
                exc), s')
         | (Inr result, s') \<Rightarrow>
             (if format = ''relaton'' then (Inr (Relaton (body result)), s')
              else
                (case map_of (representations result) ''bibxml'' of
                   Some bibxml_repr \<Rightarrow>
                     (if bibxml_repr \<noteq> [] then (Inr (Bibxml bibxml_repr), s')
                      else (Inl (RefNotFoundError
                        ''BibXML representation not found for requested reference'' repr_Q), s'))
                 | None \<Rightarrow>
                     (Inl (RefNotFoundError
                        ''BibXML representation not found for requested reference'' repr_Q), s')))))"

definition get_indexed_ref :: "store \<Rightarrow> string \<Rightarrow> string \<Rightarrow> string \<Rightarrow> (error + citation) \<times> store" where
  "get_indexed_ref s dataset_id x format =
     get_indexed_ref_by_query s dataset_id (Q_ref_iexact x) format"

section \<open>Structural search\<close>

subsection \<open>The statement \<^verbatim>\<open>search_refs_relaton_struct\<close> builds\<close>

text \<open>
  \<^verbatim>\<open>json.dumps(obj)\<close> turns a pattern into JSON text, and the cast \<^verbatim>\<open>%s::jsonb\<close>
  of the statement reads the text back in the store. The model keeps, for a bound
  parameter, the document that the text denotes.
\<close>

datatype sql_param = JsonText json

definition json_dumps :: "json \<Rightarrow> sql_param" where
  "json_dumps obj = JsonText obj"

fun jsonb_cast :: "sql_param \<Rightarrow> json" where
  "jsonb_cast (JsonText j) = j"

text \<open>
  \<^verbatim>\<open>RefDataManager.raw(query, params)\<close> is lazy: it records the statement and its
  parameters, and talks to the store only when the result is iterated.
\<close>

record RawQuerySet =
  raw_query :: string
  params :: "sql_param list"

text \<open>Python's \<^verbatim>\<open>sep.join(xs)\<close>.\<close>

fun join :: "string \<Rightarrow> string list \<Rightarrow> string" where
  "join sep [] = []"
| "join sep [x] = x"
| "join sep (x # y # ys) = x @ sep @ join sep (y # ys)"

definition search_refs_relaton_struct :: "json list \<Rightarrow> RawQuerySet" where
  "search_refs_relaton_struct objs =
     (let subqueries = map (\<lambda>obj. ''body @> %s::jsonb'') objs;
          query = ''SELECT * FROM api_ref_data WHERE '' @ join '' OR '' subqueries
      in \<lparr>raw_query = query, params = map json_dumps objs\<rparr>)"

subsection \<open>The containment operator of the store\<close>

text \<open>
  PostgreSQL's \<^verbatim>\<open>@>\<close> on \<^verbatim>\<open>jsonb\<close>, which the statement names and the docstring
  refers to. Below the top level, an object contains an object when each key of the
  contained one is present with a value that contains the contained value; an array
  contains an array when each element of the contained one is contained in some element;
  scalars are contained in equal scalars only; containers of different kinds never
  contain each other.
\<close>

fun is_scalar :: "json \<Rightarrow> bool" where
  "is_scalar (JArr xs) = False"
| "is_scalar (JObj kvs) = False"
| "is_scalar j = True"

fun jsonb_deep_contains :: "json \<Rightarrow> json \<Rightarrow> bool" where
  "jsonb_deep_contains (JObj kvs) (JObj pat) =
     list_all (\<lambda>(k, p). case map_of kvs k of
                            None \<Rightarrow> False
                          | Some v \<Rightarrow> jsonb_deep_contains v p) pat"
| "jsonb_deep_contains (JArr vs) (JArr ps) =
     list_all (\<lambda>p. list_ex (\<lambda>v. jsonb_deep_contains v p) vs) ps"
| "jsonb_deep_contains (JObj kvs) p = False"
| "jsonb_deep_contains (JArr vs) p = False"
| "jsonb_deep_contains v p = (v = p)"

text \<open>
  At the top level there is one exception to matching kinds: an array contains a scalar
  that is one of its elements.
\<close>

definition jsonb_contains :: "json \<Rightarrow> json \<Rightarrow> bool" where
  "jsonb_contains v p =
     (if is_scalar p
      then (case v of JArr vs \<Rightarrow> p \<in> set vs | JObj kvs \<Rightarrow> False | _ \<Rightarrow> v = p)
      else jsonb_deep_contains v p)"

text \<open>
  Containment in the words of the specification: every key and value of the pattern is
  present in the body with a value that contains it in turn, the elements of a pattern
  array are each contained in some element of the body's array, and scalars are equal.
\<close>

fun structurally_contains :: "json \<Rightarrow> json \<Rightarrow> bool" where
  "structurally_contains b (JObj pat) =
     (\<exists>kvs. b = JObj kvs \<and>
        (\<forall>(k, p) \<in> set pat. \<exists>v. map_of kvs k = Some v \<and> structurally_contains v p))"
| "structurally_contains b (JArr ps) =
     (\<exists>vs. b = JArr vs \<and> (\<forall>p \<in> set ps. \<exists>v \<in> set vs. structurally_contains v p))"
| "structurally_contains b p = (b = p)"

subsection \<open>Running the statement\<close>

text \<open>
  The store's reading of the statements of this family: after
  \<^verbatim>\<open>SELECT * FROM api_ref_data WHERE\<close> the grammar requires a condition, here one
  containment test or several joined by \<^verbatim>\<open>OR\<close>. \<^verbatim>\<open>parse_disjunction\<close> counts the
  placeholders of such a condition.
\<close>

fun strip_prefix :: "string \<Rightarrow> string \<Rightarrow> string option" where
  "strip_prefix [] s = Some s"
| "strip_prefix (p # ps) [] = None"
| "strip_prefix (p # ps) (c # cs) = (if p = c then strip_prefix ps cs else None)"

function parse_disjunction :: "string \<Rightarrow> nat option" where
  "parse_disjunction s =
     (case strip_prefix ''body @> %s::jsonb'' s of
        None \<Rightarrow> None
      | Some rest \<Rightarrow>
          if rest = [] then Some 1
          else (case strip_prefix '' OR '' rest of
                  None \<Rightarrow> None
                | Some rest' \<Rightarrow> map_option Suc (parse_disjunction rest')))"
  by pat_completeness auto
termination
proof (relation "measure length")
  have len: "strip_prefix p s = Some r \<Longrightarrow> length s = length p + length r" for p s r
    by (induction p s rule: strip_prefix.induct) (auto split: if_splits)
  fix s rest rest'
  assume "strip_prefix ''body @> %s::jsonb'' s = Some rest"
     and "strip_prefix '' OR '' rest = Some rest'"
  then show "(rest', s) \<in> measure length"
    by (auto dest!: len)
qed simp

declare parse_disjunction.simps [simp del]

text \<open>
  Iterating the query set executes the statement: one access to the store. A statement
  that ends after \<^verbatim>\<open>WHERE\<close> is rejected (\<^verbatim>\<open>syntax error at end of input\<close>, which
  Django raises as \<^verbatim>\<open>ProgrammingError\<close>); a condition with as many placeholders as
  there are parameters selects the rows whose body contains one of the parameters; the rows
  come in the order of the table.
\<close>

definition execute_raw :: "store \<Rightarrow> RawQuerySet \<Rightarrow> (error + RefData list) \<times> store" where
  "execute_raw s q =
     ((case strip_prefix ''SELECT * FROM api_ref_data WHERE '' (raw_query q) of
         None \<Rightarrow> Inl (ProgrammingError ''statement outside the modelled fragment'')
       | Some condition \<Rightarrow>
           if condition = [] then Inl (ProgrammingError ''syntax error at end of input'')
           else (case parse_disjunction condition of
                   None \<Rightarrow> Inl (ProgrammingError ''statement outside the modelled fragment'')
                 | Some n \<Rightarrow>
                     if n \<noteq> length (params q)
                     then Inl (ProgrammingError ''placeholders and parameters differ in number'')
                     else Inr (filter
                       (\<lambda>r. list_ex (\<lambda>p. jsonb_contains (body r) (jsonb_cast p)) (params q))
                       (rows s)))),
      s\<lparr>executed := Suc (executed s)\<rparr>)"

section \<open>The document types in the store\<close>

text \<open>
  \<^verbatim>\<open>list_doctypes\<close> sends one statement. Its inner query calls, for every record,
  \<^verbatim>\<open>jsonb_path_query_array(body, '$.docid[*].type')\<close> and the same with \<^verbatim>\<open>id\<close>,
  unnests both arrays as text side by side, and the outer query keeps one row for each
  \<^verbatim>\<open>doctype\<close> (\<^verbatim>\<open>distinct on\<close>).
\<close>

subsection \<open>JSON paths in lax mode\<close>

text \<open>
  A path is evaluated in lax mode, the default. A key accessor applied to an object yields
  the value of the key, or nothing when the key is missing; applied to an array it is
  applied to the elements of the array (one level only); applied to a scalar it yields
  nothing. The accessor \<^verbatim>\<open>[*]\<close> yields the elements of an array, and the item
  itself when the item is not an array.
\<close>

datatype path_item = Key string | AnyElement

fun member_of :: "string \<Rightarrow> json \<Rightarrow> json list" where
  "member_of k (JObj kvs) = (case map_of kvs k of Some v \<Rightarrow> [v] | None \<Rightarrow> [])"
| "member_of k j = []"

fun path_step :: "path_item \<Rightarrow> json \<Rightarrow> json list" where
  "path_step (Key k) (JArr xs) = concat (map (member_of k) xs)"
| "path_step (Key k) j = member_of k j"
| "path_step AnyElement (JArr xs) = xs"
| "path_step AnyElement j = [j]"

definition jsonb_path_query_array :: "json \<Rightarrow> path_item list \<Rightarrow> json list" where
  "jsonb_path_query_array target path =
     foldl (\<lambda>items step. concat (map (path_step step) items)) [target] path"

text \<open>
  \<^verbatim>\<open>jsonb_array_elements_text\<close>: a JSON string becomes its content, JSON
  \<^verbatim>\<open>null\<close> becomes SQL \<^verbatim>\<open>NULL\<close>, and any other value becomes its text form, which
  is the parameter \<open>out\<close> (the store's output function for \<^verbatim>\<open>jsonb\<close>).
\<close>

definition jsonb_array_elements_text ::
    "(json \<Rightarrow> string) \<Rightarrow> json list \<Rightarrow> string option list" where
  "jsonb_array_elements_text out xs =
     map (\<lambda>j. case j of JNull \<Rightarrow> None | JStr t \<Rightarrow> Some t | _ \<Rightarrow> Some (out j)) xs"

subsection \<open>The rows of the inner query\<close>

text \<open>
  Two set-returning functions in one select list advance in lockstep: the first results
  of both make the first row, and when one function runs out before the other its column
  is \<^verbatim>\<open>NULL\<close> in the remaining rows.
\<close>

fun lockstep :: "'a option list \<Rightarrow> 'b option list \<Rightarrow> ('a option \<times> 'b option) list" where
  "lockstep [] [] = []"
| "lockstep (x # xs) [] = (x, None) # lockstep xs []"
| "lockstep [] (y # ys) = (None, y) # lockstep [] ys"
| "lockstep (x # xs) (y # ys) = (x, y) # lockstep xs ys"

text \<open>
  A row of the inner query is \<open>(doctype, sample_id)\<close>; the record's \<^verbatim>\<open>id\<close>, which the
  statement selects as well, is not read by \<^verbatim>\<open>list_doctypes\<close> and is left out.
\<close>

type_synonym item = "string option \<times> string option"

definition item_rows :: "(json \<Rightarrow> string) \<Rightarrow> RefData list \<Rightarrow> item list" where
  "item_rows out table =
     concat (map (\<lambda>r. lockstep
        (jsonb_array_elements_text out
           (jsonb_path_query_array (body r) [Key ''docid'', AnyElement, Key ''type'']))
        (jsonb_array_elements_text out
           (jsonb_path_query_array (body r) [Key ''docid'', AnyElement, Key ''id''])))
       table)"

subsection \<open>\<^verbatim>\<open>distinct on\<close> and \<^verbatim>\<open>list_doctypes\<close>\<close>

text \<open>\<^verbatim>\<open>distinct on (key)\<close> keeps the first row of each group of rows with equal keys.\<close>

fun distinct_on :: "('a \<Rightarrow> 'k) \<Rightarrow> 'a list \<Rightarrow> 'a list" where
  "distinct_on key [] = []"
| "distinct_on key (x # xs) = x # distinct_on key (filter (\<lambda>y. key y \<noteq> key x) xs)"

text \<open>
  The statement has no \<^verbatim>\<open>order by\<close> (the \<^verbatim>\<open>order_by('?')\<close> of the source is
  applied to a query set that \<^verbatim>\<open>raw\<close> replaces), so the order in which the rows of the
  inner query reach \<^verbatim>\<open>distinct on\<close> is up to the store: the parameter \<open>scan\<close>, some
  rearrangement of the rows. The list comprehension turns each row into a pair.
\<close>

definition list_doctypes ::
    "(json \<Rightarrow> string) \<Rightarrow> (item list \<Rightarrow> item list) \<Rightarrow> store \<Rightarrow> item list \<times> store" where
  "list_doctypes out scan s =
     (map (\<lambda>i. (fst i, snd i)) (distinct_on fst (scan (item_rows out (rows s)))),
      s\<lparr>executed := Suc (executed s)\<rparr>)"

subsection \<open>Document identifiers of a well-formed body\<close>

text \<open>
  The data model of the specification: a body is an object whose \<^verbatim>\<open>docid\<close>, when
  present, is an array of entries, each with a \<^verbatim>\<open>type\<close> and an \<^verbatim>\<open>id\<close>.
  \<^verbatim>\<open>docid_pair\<close> reads the pair of such an entry, \<^verbatim>\<open>docids\<close> the entries of a body.
\<close>

fun docid_pair :: "json \<Rightarrow> (string \<times> string) option" where
  "docid_pair (JObj fs) =
     (case (map_of fs ''type'', map_of fs ''id'') of
        (Some (JStr t), Some (JStr i)) \<Rightarrow> Some (t, i)
      | _ \<Rightarrow> None)"
| "docid_pair j = None"

fun docids :: "json \<Rightarrow> json list" where
  "docids (JObj kvs) = (case map_of kvs ''docid'' of Some (JArr es) \<Rightarrow> es | _ \<Rightarrow> [])"
| "docids j = []"

fun well_formed_docids :: "json \<Rightarrow> bool" where
  "well_formed_docids (JObj kvs) =
     (case map_of kvs ''docid'' of
        None \<Rightarrow> True
      | Some (JArr es) \<Rightarrow> list_all (\<lambda>e. docid_pair e \<noteq> None) es
      | Some _ \<Rightarrow> False)"
| "well_formed_docids j = False"

section \<open>Serialising a bibliographic item\<close>

text \<open>
  The serializer (\<^verbatim>\<open>xml2rfc_compat/serializer.py\<close>) and the object model
  (\<^verbatim>\<open>bib_models\<close>) are not among the sources; their tests are. The definitions of this
  section follow the specification, and the tests where they say more.
\<close>

text \<open>
  Modelled from the spec: the element tree that the builders return (\<^verbatim>\<open>lxml\<close> elements
  in the tests, which read \<^verbatim>\<open>.tag\<close>).
\<close>

datatype xml =
    Element (tag: string) (attrib: "(string \<times> string) list") (children: "xml list")
  | Text string

text \<open>
  Modelled from the spec: the classes of \<^verbatim>\<open>bib_models\<close>, with the fields of the data
  model and of the test fixtures. A contributor is a tagged union of an organization and a
  person, or neither (the tests unset the field), with a role that may be unset;
  \<^verbatim>\<open>organization\<close> and \<^verbatim>\<open>person\<close> read the two attributes.
\<close>

record TitledText =
  content :: string
  language :: "string option"
  script :: "string option"
  text_format :: "string option"

record DocID =
  docid_id :: string
  docid_type :: string

record Date =
  date_type :: string
  date_value :: string

record Link =
  link_content :: string
  link_type :: string

record Organization =
  organization_name :: string

record PersonName =
  initial :: "TitledText list"
  surname :: TitledText
  completename :: TitledText

datatype Party = OfOrganization Organization | OfPerson PersonName

record Contributor =
  role :: "string option"
  party :: "Party option"

definition organization :: "Contributor \<Rightarrow> Organization option" where
  "organization c = (case party c of Some (OfOrganization org) \<Rightarrow> Some org | _ \<Rightarrow> None)"

definition person :: "Contributor \<Rightarrow> PersonName option" where
  "person c = (case party c of Some (OfPerson p) \<Rightarrow> Some p | _ \<Rightarrow> None)"

datatype BibliographicItem = BibliographicItem
  (item_id: "string option")
  (title: "TitledText list")
  (docid: "DocID list")
  (formattedref: "TitledText option")
  (contributor: "Contributor list")
  (date: "Date list")
  (relation: "(string \<times> BibliographicItem) list")
  (item_type: "string option")
  (docnumber: "string option")
  (link: "Link list")

text \<open>The results of a sequence of builders, or the first error among them.\<close>

fun collect :: "(error + 'a) list \<Rightarrow> error + 'a list" where
  "collect [] = Inr []"
| "collect (Inl e # rs) = Inl e"
| "collect (Inr x # rs) = (case collect rs of Inl e \<Rightarrow> Inl e | Inr xs \<Rightarrow> Inr (x # xs))"

text \<open>
  Modelled from the spec: the title and date builders, which map their fields and do not
  validate.
\<close>

definition create_title :: "TitledText \<Rightarrow> xml" where
  "create_title t = Element ''title'' [] [Text (content t)]"

definition create_date :: "Date \<Rightarrow> xml" where
  "create_date d = Element ''date'' [(''type'', date_type d), (''value'', date_value d)] []"

text \<open>
  Modelled from the spec: \<^verbatim>\<open>create_author\<close>. The role must be set and be a key of
  the role table (a parameter: the specification names author, editor and publisher and
  leaves the table open); an organization or a person must be set; the element holds an
  \<^verbatim>\<open>organization\<close> or a \<^verbatim>\<open>person\<close> subtree. The errors are \<^verbatim>\<open>ValueError\<close>, as the
  tests expect.
\<close>

definition create_author :: "(string \<times> string) list \<Rightarrow> Contributor \<Rightarrow> error + xml" where
  "create_author role_table c =
     (case role c of
        None \<Rightarrow> Inl (ValueError ''missing role / incompatible role'')
      | Some r \<Rightarrow>
         (case map_of role_table r of
            None \<Rightarrow> Inl (ValueError ''missing role / incompatible role'')
          | Some xml_role \<Rightarrow>
             (case party c of
                None \<Rightarrow> Inl (ValueError ''missing person or organization'')
              | Some (OfOrganization org) \<Rightarrow>
                  Inr (Element ''author'' [(''role'', xml_role)]
                         [Element ''organization'' [] [Text (organization_name org)]])
              | Some (OfPerson p) \<Rightarrow>
                  Inr (Element ''author'' [(''role'', xml_role)]
                         [Element ''person'' []
                            (map (\<lambda>i. Element ''initial'' [] [Text (content i)]) (initial p) @
                             [Element ''surname'' [] [Text (content (surname p))],
                              Element ''completename'' []
                                [Text (content (completename p))]])]))))"

text \<open>
  Modelled from the spec: \<^verbatim>\<open>create_reference\<close>. With neither titles nor relations
  it fails (\<^verbatim>\<open>missing titles and relations\<close>). With relations and no title it fails
  too: that is the test \<^verbatim>\<open>test_fail_create_reference_if_missing_titles\<close>, which
  removes the title only, keeps a relation whose item has a title, and expects
  \<^verbatim>\<open>ValueError\<close>; the specification's fallback to the title of the first related
  item is therefore not part of the model. Otherwise the element \<^verbatim>\<open>reference\<close> holds
  the titles, the authors built from the contributors, the dates, and one reference for
  the item of each relation; an error of a nested builder is the error of the whole.
\<close>

fun create_reference :: "(string \<times> string) list \<Rightarrow> BibliographicItem \<Rightarrow> error + xml" where
  "create_reference role_table
       (BibliographicItem i titles ds fr contributors dates relations ty dn ls) =
     (if titles = [] \<and> relations = [] then Inl (ValueError ''missing titles and relations'')
      else if titles = [] then Inl (ValueError ''missing titles'')
      else
        (case collect (map (create_author role_table) contributors) of
           Inl e \<Rightarrow> Inl e
         | Inr authors \<Rightarrow>
            (case collect (map (\<lambda>(t, b). create_reference role_table b) relations) of
               Inl e \<Rightarrow> Inl e
             | Inr nested \<Rightarrow>
                 Inr (Element ''reference'' []
                        (map create_title titles @ authors @ map create_date dates @ nested)))))"

section \<open>Example data\<close>

text \<open>
  A small store used to run the definitions: two records that differ only in letter case
  (so that a case-insensitive lookup of \<^verbatim>\<open>rfc1\<close> finds both), a record whose BibXML
  representation is the empty string, a record with no representation, and a record with
  one.
\<close>

definition rfc1_a :: RefData where
  "rfc1_a = \<lparr>dataset = ''rfcs'', ref = ''RFC1'',
              body = JObj [(''id'', JStr ''RFC1''),
                (''docid'', JArr [JObj [(''type'', JStr ''RFC''), (''id'', JStr ''RFC 1'')],
                                  JObj [(''type'', JStr ''DOI''), (''id'', JStr ''10.17487/RFC0001'')]])],
              representations = [(''bibxml'', ''<reference/>'')]\<rparr>"

definition rfc1_b :: RefData where
  "rfc1_b = \<lparr>dataset = ''RFCS'', ref = ''rfc1'',
              body = JObj [(''id'', JStr ''rfc1''),
                (''docid'', JArr [JObj [(''type'', JStr ''RFC''), (''id'', JStr ''rfc 1'')]])],
              representations = []\<rparr>"

definition rfc2_blank :: RefData where
  "rfc2_blank = \<lparr>dataset = ''rfcs'', ref = ''RFC2'', body = JObj [(''id'', JStr ''RFC2'')],
              representations = [(''bibxml'', [])]\<rparr>"

definition rfc3_bare :: RefData where
  "rfc3_bare = \<lparr>dataset = ''rfcs'', ref = ''RFC3'',
              body = JObj [(''id'', JStr ''RFC3''),
                (''docid'', JArr [JObj [(''type'', JStr ''IETF''), (''id'', JStr ''RFC 3'')]])],
              representations = []\<rparr>"

definition rfc4_full :: RefData where
  "rfc4_full = \<lparr>dataset = ''rfcs'', ref = ''RFC4'',
              body = JObj [(''id'', JStr ''RFC4''),
                (''docid'', JArr [JObj [(''type'', JStr ''ISO''), (''id'', JStr ''ISO 4'')]])],
              representations = [(''bibxml'', ''<reference anchor=RFC4/>'')]\<rparr>"

definition example_store :: store where
  "example_store = \<lparr>rows = [rfc1_a, rfc1_b, rfc2_blank, rfc3_bare, rfc4_full], executed = 0\<rparr>"

text \<open>Two patterns for the structural search; no record matches both.\<close>

definition pattern_rfc :: json where
  "pattern_rfc = JObj [(''docid'', JArr [JObj [(''type'', JStr ''RFC'')]])]"

definition pattern_iso :: json where
  "pattern_iso = JObj [(''docid'', JArr [JObj [(''type'', JStr ''ISO'')]])]"

text \<open>
  A record whose first document identifier has no type, and a text form for values that
  are not strings (no example has one).
\<close>

definition untyped_first :: RefData where
  "untyped_first = \<lparr>dataset = ''misc'', ref = ''B'',
              body = JObj [(''docid'', JArr [JObj [(''id'', JStr ''A'')],
                                             JObj [(''type'', JStr ''T''), (''id'', JStr ''B'')]])],
              representations = []\<rparr>"

definition untyped_store :: store where
  "untyped_store = \<lparr>rows = [untyped_first], executed = 0\<rparr>"

definition example_out :: "json \<Rightarrow> string" where
  "example_out j = ''?''"

text \<open>The fixtures of the serializer's tests, and a role table with the three named roles.\<close>

definition example_roles :: "(string \<times> string) list" where
  "example_roles = [(''author'', ''author''), (''editor'', ''editor''), (''publisher'', ''publisher'')]"

definition english :: "string \<Rightarrow> TitledText" where
  "english t = \<lparr>content = t, language = Some ''en'', script = None, text_format = None\<rparr>"

definition contributor_organization :: Contributor where
  "contributor_organization =
     \<lparr>role = Some ''publisher'',
      party = Some (OfOrganization \<lparr>organization_name = ''Internet Engineering Task Force''\<rparr>)\<rparr>"

definition contributor_person :: Contributor where
  "contributor_person =
     \<lparr>role = Some ''author'',
      party = Some (OfPerson \<lparr>initial = [english ''Mr''], surname = english ''Cerf'',
                               completename = english ''Mr Cerf''\<rparr>)\<rparr>"

definition fixture_title :: TitledText where
  "fixture_title = \<lparr>content = ''title'', language = Some ''en'', script = Some ''Latn'',
                    text_format = Some ''text / plain''\<rparr>"

definition related_item :: BibliographicItem where
  "related_item = BibliographicItem (Some ''test_id'') [fixture_title]
     [\<lparr>docid_id = ''RFC1917'', docid_type = ''RFC''\<rparr>] None []
     [\<lparr>date_type = ''published'', date_value = ''1996-02''\<rparr>] []
     (Some ''standard'') (Some ''RFC1917'')
     [\<lparr>link_content = ''https://raw.githubusercontent.com/relaton/relaton-data-ietf/master/data/reference.RFC.1917.xml'',
       link_type = ''xml''\<rparr>]"

definition bibitem_with :: "TitledText list \<Rightarrow> (string \<times> BibliographicItem) list \<Rightarrow> BibliographicItem" where
  "bibitem_with titles relations = BibliographicItem (Some ''ref_01'') titles
     [\<lparr>docid_id = ''ref_01'', docid_type = ''test_dataset_01''\<rparr>]
     (Some \<lparr>content = ''BCP4'', language = Some ''en'', script = Some ''Latn'',
            text_format = Some ''text/plain''\<rparr>)
     [contributor_organization]
     [\<lparr>date_type = ''published'', date_value = ''1996-02''\<rparr>] relations None None []"

definition bibitem :: BibliographicItem where
  "bibitem = bibitem_with [fixture_title] [(''includes'', related_item)]"

definition bibitem_without_title :: BibliographicItem where
  "bibitem_without_title = bibitem_with [] [(''includes'', related_item)]"

section \<open>The reference resolver\<close>

lemmas resolver_defs =
  get_indexed_ref_def get_indexed_ref_by_query_def RefDataManager_get_def
  Q_and_def Q_ref_iexact_def Q_dataset_iexact_def iexact_def ascii_upper_def
  rfc1_a_def rfc1_b_def rfc2_blank_def rfc3_bare_def rfc4_full_def example_store_def

text \<open>How \<^const>\<open>RefDataManager_get\<close> answers, by the number of matching rows.\<close>

lemma RefDataManager_get_DoesNotExist:
  "fst (RefDataManager_get s q) = Inl DoesNotExist \<longleftrightarrow> filter q (rows s) = []"
  by (auto simp: RefDataManager_get_def split: list.splits)

lemma RefDataManager_get_Multiple:
  "fst (RefDataManager_get s q) = Inl MultipleObjectsReturned
     \<longleftrightarrow> 2 \<le> length (filter q (rows s))"
  by (auto simp: RefDataManager_get_def split: list.splits)

lemma RefDataManager_get_one:
  "fst (RefDataManager_get s q) = Inr r \<longleftrightarrow> filter q (rows s) = [r]"
  by (auto simp: RefDataManager_get_def split: list.splits)

text \<open>A supported format costs exactly one statement, whatever the outcome.\<close>

lemma get_indexed_ref_by_query_one_statement:
  "format \<in> {''relaton'', ''bibxml''} \<Longrightarrow>
     snd (get_indexed_ref_by_query s dataset_id query format) = s\<lparr>executed := Suc (executed s)\<rparr>"
  by (auto simp: get_indexed_ref_by_query_def RefDataManager_get_def
           split: list.splits option.splits)

text \<open>
  C4. For a format other than \<^verbatim>\<open>relaton\<close> and \<^verbatim>\<open>bibxml\<close> the call fails with
  \<^verbatim>\<open>ValueError("Unknown citation format requested")\<close> (the invalid-format error) and
  hands the store back as it received it: no statement was executed, for any store, dataset
  id and query.
\<close>

theorem unknown_format_fails_before_query:
  "format \<notin> {''relaton'', ''bibxml''} \<Longrightarrow>
     get_indexed_ref_by_query s dataset_id query format
       = (Inl (ValueError ''Unknown citation format requested''), s)"
  by (simp add: get_indexed_ref_by_query_def)

theorem unknown_format_fails_before_query_witness:
  "''xyz'' \<notin> {''relaton'', ''bibxml''} \<and>
   get_indexed_ref_by_query example_store ''rfcs'' (Q_ref_iexact ''rfc1'') ''xyz''
     = (Inl (ValueError ''Unknown citation format requested''), example_store)"
  using unknown_format_fails_before_query
          [of "''xyz''" example_store "''rfcs''" "Q_ref_iexact ''rfc1''"]
  by simp

text \<open>
  C2. When exactly one record has the dataset \<open>dataset_id\<close> and the ref \<open>x\<close> (both
  compared case-insensitively), \<^verbatim>\<open>get_indexed_ref\<close> with format \<^verbatim>\<open>relaton\<close>, and
  \<^verbatim>\<open>get_indexed_ref_by_query\<close> with the query it builds, return that record's body as
  it is stored.
\<close>

theorem relaton_returns_body_unchanged:
  "filter (Q_and (Q_ref_iexact x) (Q_dataset_iexact dataset_id)) (rows s) = [r] \<Longrightarrow>
     fst (get_indexed_ref s dataset_id x ''relaton'') = Inr (Relaton (body r)) \<and>
     fst (get_indexed_ref_by_query s dataset_id (Q_ref_iexact x) ''relaton'')
       = Inr (Relaton (body r))"
  by (simp add: get_indexed_ref_def get_indexed_ref_by_query_def RefDataManager_get_def)

theorem relaton_returns_body_unchanged_witness:
  "filter (Q_and (Q_ref_iexact ''rfc2'') (Q_dataset_iexact ''RFCs'')) (rows example_store)
     = [rfc2_blank] \<and>
   fst (get_indexed_ref example_store ''RFCs'' ''rfc2'' ''relaton'')
     = Inr (Relaton (JObj [(''id'', JStr ''RFC2'')]))"
proof -
  have one: "filter (Q_and (Q_ref_iexact ''rfc2'') (Q_dataset_iexact ''RFCs''))
               (rows example_store) = [rfc2_blank]"
    by (simp add: resolver_defs)
  from relaton_returns_body_unchanged [OF one] one show ?thesis
    by (simp add: rfc2_blank_def)
qed

text \<open>
  The zero-match half of the lookup: for a supported format, when no record satisfies the
  query within the dataset, the first \<^verbatim>\<open>except\<close> clause raises
  \<^verbatim>\<open>RefNotFoundError\<close> with the message
  \<^verbatim>\<open>Cannot find matching reference in given dataset\<close>.
\<close>

lemma no_match_fails_not_found:
  assumes "format \<in> {''relaton'', ''bibxml''}"
      and "filter (Q_and query (Q_dataset_iexact dataset_id)) (rows s) = []"
  shows "fst (get_indexed_ref_by_query s dataset_id query format)
           = Inl (RefNotFoundError ''Cannot find matching reference in given dataset'' repr_Q)"
  using assms by (auto simp: get_indexed_ref_by_query_def RefDataManager_get_def)

text \<open>
  What the second clause would raise if it named the class, as the first clause does: the
  error its body is written for.
\<close>

lemma handle_multiple_by_class:
  "handle
     [(ExcClass DoesNotExist,
         RefNotFoundError ''Cannot find matching reference in given dataset'' repr_Q),
      (ExcClass MultipleObjectsReturned,
         RefNotFoundError ''Multiple references match query in given dataset'' repr_Q)]
     MultipleObjectsReturned
   = RefNotFoundError ''Multiple references match query in given dataset'' repr_Q"
  by simp

text \<open>
  C1. With two or more matching records the lookup is to fail with an error of its own,
  which tells the caller that the reference is ambiguous; the body of the second
  \<^verbatim>\<open>except\<close> clause raises one (\<^verbatim>\<open>Multiple references match query in given dataset\<close>).
  The code does not get there. \<^verbatim>\<open>rfc1\<close> in dataset \<^verbatim>\<open>rfcs\<close> matches two records of
  the example store; the clause \<^verbatim>\<open>except RefData.MultipleObjectsReturned():\<close> names an
  instance, and the error that reaches the caller is the \<^verbatim>\<open>TypeError\<close> of that clause.
\<close>

theorem many_matches_raise_type_error:
  "length (filter (Q_and (Q_ref_iexact ''rfc1'') (Q_dataset_iexact ''rfcs''))
            (rows example_store)) = 2 \<and>
   fst (get_indexed_ref_by_query example_store ''rfcs'' (Q_ref_iexact ''rfc1'') ''relaton'')
     = Inl (TypeError
         ''catching classes that do not inherit from BaseException is not allowed'')"
  by (simp add: resolver_defs)

text \<open>
  C3, as the code has it. For a uniquely matched record and format \<^verbatim>\<open>bibxml\<close>: with no
  \<^verbatim>\<open>bibxml\<close> entry among the representations the call fails with
  \<^verbatim>\<open>RefNotFoundError\<close> (\<^verbatim>\<open>BibXML representation not found for requested reference\<close>);
  with a non-empty entry it returns the stored string; an entry that holds the empty string
  is treated as absent.
\<close>

theorem bibxml_representation_lookup:
  assumes "filter (Q_and query (Q_dataset_iexact dataset_id)) (rows s) = [r]"
  shows "(map_of (representations r) ''bibxml'' = None \<longrightarrow>
            fst (get_indexed_ref_by_query s dataset_id query ''bibxml'')
              = Inl (RefNotFoundError
                  ''BibXML representation not found for requested reference'' repr_Q))
       \<and> (\<forall>x. map_of (representations r) ''bibxml'' = Some x \<and> x \<noteq> [] \<longrightarrow>
            fst (get_indexed_ref_by_query s dataset_id query ''bibxml'') = Inr (Bibxml x))
       \<and> (map_of (representations r) ''bibxml'' = Some [] \<longrightarrow>
            fst (get_indexed_ref_by_query s dataset_id query ''bibxml'')
              = Inl (RefNotFoundError
                  ''BibXML representation not found for requested reference'' repr_Q))"
  using assms by (simp add: get_indexed_ref_by_query_def RefDataManager_get_def)

theorem bibxml_representation_lookup_witness:
  "fst (get_indexed_ref_by_query example_store ''rfcs'' (Q_ref_iexact ''rfc3'') ''bibxml'')
     = Inl (RefNotFoundError
         ''BibXML representation not found for requested reference'' repr_Q) \<and>
   fst (get_indexed_ref_by_query example_store ''rfcs'' (Q_ref_iexact ''rfc4'') ''bibxml'')
     = Inr (Bibxml ''<reference anchor=RFC4/>'')"
proof -
  have bare: "filter (Q_and (Q_ref_iexact ''rfc3'') (Q_dataset_iexact ''rfcs''))
                (rows example_store) = [rfc3_bare]"
    by (simp add: resolver_defs)
  have full: "filter (Q_and (Q_ref_iexact ''rfc4'') (Q_dataset_iexact ''rfcs''))
                (rows example_store) = [rfc4_full]"
    by (simp add: resolver_defs)
  from bibxml_representation_lookup [OF bare] bibxml_representation_lookup [OF full]
  show ?thesis by (simp add: rfc3_bare_def rfc4_full_def)
qed

text \<open>
  C3, as the claim states it, fails: \<^verbatim>\<open>RFC2\<close> is matched by one record only, that
  record has a \<^verbatim>\<open>bibxml\<close> entry (the empty string), and the call does not return the
  stored string.
\<close>

theorem empty_bibxml_counterexample:
  "filter (Q_and (Q_ref_iexact ''rfc2'') (Q_dataset_iexact ''rfcs'')) (rows example_store)
     = [rfc2_blank] \<and>
   map_of (representations rfc2_blank) ''bibxml'' = Some [] \<and>
   fst (get_indexed_ref_by_query example_store ''rfcs'' (Q_ref_iexact ''rfc2'') ''bibxml'')
     = Inl (RefNotFoundError
         ''BibXML representation not found for requested reference'' repr_Q)"
  by (simp add: resolver_defs)

text \<open>
  C9. Whenever \<^verbatim>\<open>get_indexed_ref_by_query\<close> fails with \<^verbatim>\<open>RefNotFoundError\<close>, the
  second component of the error is \<^const>\<open>repr_Q\<close>, the printed name of the class
  \<^verbatim>\<open>Q\<close>: two failing calls carry the same value, whatever their stores, dataset ids,
  queries and formats.
\<close>

theorem not_found_query_repr_constant:
  assumes "fst (get_indexed_ref_by_query s1 d1 q1 f1) = Inl (RefNotFoundError m1 r1)"
      and "fst (get_indexed_ref_by_query s2 d2 q2 f2) = Inl (RefNotFoundError m2 r2)"
  shows "r1 = repr_Q \<and> r2 = repr_Q \<and> r1 = r2"
  using assms
  by (auto simp: get_indexed_ref_by_query_def RefDataManager_get_def
           split: list.splits if_splits option.splits)

theorem not_found_query_repr_constant_witness:
  "fst (get_indexed_ref_by_query example_store ''rfcs'' (Q_ref_iexact ''rfc9'') ''relaton'')
     = Inl (RefNotFoundError ''Cannot find matching reference in given dataset''
         (''<class '' @ [CHR 0x27] @ ''django.db.models.query_utils.Q'' @ [CHR 0x27] @ ''>'')) \<and>
   fst (get_indexed_ref_by_query example_store ''RFCS'' (Q_ref_iexact ''rfc3'') ''bibxml'')
     = Inl (RefNotFoundError ''BibXML representation not found for requested reference''
         (''<class '' @ [CHR 0x27] @ ''django.db.models.query_utils.Q'' @ [CHR 0x27] @ ''>''))"
proof -
  have a: "\<exists>m r. fst (get_indexed_ref_by_query example_store ''rfcs'' (Q_ref_iexact ''rfc9'')
             ''relaton'') = Inl (RefNotFoundError m r) \<and>
             m = ''Cannot find matching reference in given dataset''"
    by (simp add: resolver_defs)
  have b: "\<exists>m r. fst (get_indexed_ref_by_query example_store ''RFCS'' (Q_ref_iexact ''rfc3'')
             ''bibxml'') = Inl (RefNotFoundError m r) \<and>
             m = ''BibXML representation not found for requested reference''"
    by (simp add: resolver_defs)
  from a b not_found_query_repr_constant show ?thesis
    unfolding repr_Q_def by metis
qed

section \<open>Structural search\<close>

lemma strip_prefix_append: "strip_prefix p (p @ r) = Some r"
  by (induction p) auto

lemma parse_disjunction_join:
  "parse_disjunction (join '' OR '' (replicate (Suc n) ''body @> %s::jsonb'')) = Some (Suc n)"
proof (induction n)
  case 0
  show ?case by (subst parse_disjunction.simps) simp
next
  case (Suc n)
  have "join '' OR '' (replicate (Suc (Suc n)) ''body @> %s::jsonb'')
      = ''body @> %s::jsonb'' @ '' OR '' @ join '' OR '' (replicate (Suc n) ''body @> %s::jsonb'')"
    by simp
  then show ?case using Suc
    by (subst parse_disjunction.simps)
       (simp only: strip_prefix_append option.case, simp add: strip_prefix_append)
qed

lemma join_replicate_nonempty: "x \<noteq> [] \<Longrightarrow> join sep (replicate (Suc n) x) \<noteq> []"
  by (cases n) auto

lemma deep_contains_iff: "jsonb_deep_contains b p = structurally_contains b p"
proof (induction b p rule: structurally_contains.induct)
  case (1 b pat)
  show ?case
  proof (cases b)
    case (JObj kvs)
    have "list_all (\<lambda>(k, p). case map_of kvs k of None \<Rightarrow> False
                                | Some v \<Rightarrow> jsonb_deep_contains v p) pat
          \<longleftrightarrow> (\<forall>(k, p) \<in> set pat. \<exists>v. map_of kvs k = Some v \<and> structurally_contains v p)"
      using 1 by (auto simp: list_all_iff split: option.splits)
    with JObj show ?thesis by simp
  qed simp_all
next
  case (2 b ps)
  show ?case
  proof (cases b)
    case (JArr vs)
    have "list_all (\<lambda>p. list_ex (\<lambda>v. jsonb_deep_contains v p) vs) ps
          \<longleftrightarrow> (\<forall>p \<in> set ps. \<exists>v \<in> set vs. structurally_contains v p)"
      using 2 by (auto simp: list_all_iff list_ex_iff)
    with JArr show ?thesis by simp
  qed simp_all
qed (case_tac b; simp)+

lemma jsonb_contains_iff:
  "\<not> is_scalar p \<Longrightarrow> jsonb_contains b p = structurally_contains b p"
  by (simp add: jsonb_contains_def deep_contains_iff)

lemma execute_search:
  assumes "objs \<noteq> []"
  shows "fst (execute_raw s (search_refs_relaton_struct objs))
       = Inr (filter (\<lambda>r. \<exists>p \<in> set objs. jsonb_contains (body r) p) (rows s))"
proof -
  from assms obtain n where n: "length objs = Suc n" by (cases objs) auto
  have sub: "map (\<lambda>obj. ''body @> %s::jsonb'') objs = replicate (Suc n) ''body @> %s::jsonb''"
    using n by (simp add: map_replicate_const)
  have ne: "join '' OR '' (replicate (Suc n) ''body @> %s::jsonb'') \<noteq> []"
    by (rule join_replicate_nonempty) simp
  have ex: "list_ex (\<lambda>p. jsonb_contains b (jsonb_cast p)) (map json_dumps objs)
            \<longleftrightarrow> (\<exists>p \<in> set objs. jsonb_contains b p)" for b
    by (simp add: list_ex_iff json_dumps_def)
  show ?thesis
    unfolding execute_raw_def search_refs_relaton_struct_def Let_def sub
    using ne n
    by (simp only: RawQuerySet.simps strip_prefix_append option.case parse_disjunction_join
                   if_False length_map ex fst_conv simp_thms)
qed

text \<open>
  C5. For a non-empty sequence of patterns, each a dict or a list, iterating the query set
  of \<^verbatim>\<open>search_refs_relaton_struct\<close> succeeds and yields exactly the records whose body
  structurally contains at least one of the patterns; for two patterns this is the union
  of the records that match the one and of those that match the other.
\<close>

theorem containment_search_returns_matches:
  assumes "objs \<noteq> []" and "\<forall>p \<in> set objs. \<not> is_scalar p"
  shows "\<exists>found. fst (execute_raw s (search_refs_relaton_struct objs)) = Inr found \<and>
           set found = {r \<in> set (rows s). \<exists>p \<in> set objs. structurally_contains (body r) p} \<and>
           (\<forall>p q. objs = [p, q] \<longrightarrow>
              set found = {r \<in> set (rows s). structurally_contains (body r) p}
                        \<union> {r \<in> set (rows s). structurally_contains (body r) q})"
proof -
  have "set (filter (\<lambda>r. \<exists>p \<in> set objs. jsonb_contains (body r) p) (rows s))
      = {r \<in> set (rows s). \<exists>p \<in> set objs. structurally_contains (body r) p}"
    using assms(2) by (auto simp: jsonb_contains_iff)
  moreover have "{r \<in> set (rows s). \<exists>p \<in> set [p, q]. structurally_contains (body r) p}
      = {r \<in> set (rows s). structurally_contains (body r) p}
      \<union> {r \<in> set (rows s). structurally_contains (body r) q}" for p q
    by auto
  ultimately show ?thesis
    using execute_search [OF assms(1), of s] by auto
qed

text \<open>
  C10. Called with no pattern, \<^verbatim>\<open>search_refs_relaton_struct\<close> builds the statement
  \<^verbatim>\<open>SELECT * FROM api_ref_data WHERE\<close> followed by a blank and nothing else, with an
  empty parameter list; iterating the query set fails instead of yielding an empty result.
\<close>

theorem no_pattern_statement_is_rejected:
  "search_refs_relaton_struct [] = \<lparr>raw_query = ''SELECT * FROM api_ref_data WHERE '', params = []\<rparr>
   \<and> fst (execute_raw s (search_refs_relaton_struct []))
       = Inl (ProgrammingError ''syntax error at end of input'')"
  by (simp add: search_refs_relaton_struct_def execute_raw_def)

lemma pattern_rfc_matches:
  "jsonb_contains (body rfc1_a) pattern_rfc" "jsonb_contains (body rfc1_b) pattern_rfc"
  "\<not> jsonb_contains (body rfc2_blank) pattern_rfc" "\<not> jsonb_contains (body rfc3_bare) pattern_rfc"
  "\<not> jsonb_contains (body rfc4_full) pattern_rfc"
  by (simp_all add: jsonb_contains_def pattern_rfc_def rfc1_a_def rfc1_b_def rfc2_blank_def
        rfc3_bare_def rfc4_full_def)

lemma pattern_iso_matches:
  "\<not> jsonb_contains (body rfc1_a) pattern_iso" "\<not> jsonb_contains (body rfc1_b) pattern_iso"
  "\<not> jsonb_contains (body rfc2_blank) pattern_iso" "\<not> jsonb_contains (body rfc3_bare) pattern_iso"
  "jsonb_contains (body rfc4_full) pattern_iso"
  by (simp_all add: jsonb_contains_def pattern_iso_def rfc1_a_def rfc1_b_def rfc2_blank_def
        rfc3_bare_def rfc4_full_def)

theorem containment_search_returns_matches_witness:
  "\<exists>found. fst (execute_raw example_store (search_refs_relaton_struct [pattern_rfc, pattern_iso]))
      = Inr found \<and> set found = {rfc1_a, rfc1_b, rfc4_full}"
proof -
  have ne: "[pattern_rfc, pattern_iso] \<noteq> []" by simp
  have containers: "\<forall>p \<in> set [pattern_rfc, pattern_iso]. \<not> is_scalar p"
    by (simp add: pattern_rfc_def pattern_iso_def)
  have sc: "structurally_contains b pattern_rfc = jsonb_contains b pattern_rfc"
           "structurally_contains b pattern_iso = jsonb_contains b pattern_iso" for b
    by (simp_all add: jsonb_contains_iff pattern_rfc_def pattern_iso_def)
  have rows: "set (rows example_store) = {rfc1_a, rfc1_b, rfc2_blank, rfc3_bare, rfc4_full}"
    by (simp add: example_store_def)
  have matches: "{r \<in> set (rows example_store).
                   \<exists>p \<in> set [pattern_rfc, pattern_iso]. structurally_contains (body r) p}
               = {rfc1_a, rfc1_b, rfc4_full}"
    unfolding rows using pattern_rfc_matches pattern_iso_matches by (auto simp: sc)
  from containment_search_returns_matches [OF ne containers, of example_store] matches
  show ?thesis by metis
qed

theorem no_pattern_statement_is_rejected_witness:
  "search_refs_relaton_struct []
     = \<lparr>raw_query = ''SELECT * FROM api_ref_data WHERE '', params = []\<rparr> \<and>
   fst (execute_raw example_store (search_refs_relaton_struct []))
     = Inl (ProgrammingError ''syntax error at end of input'')"
  by (rule no_pattern_statement_is_rejected)

section \<open>The document types in the store\<close>

lemma distinct_on_subset: "set (distinct_on key xs) \<subseteq> set xs"
  by (induction key xs rule: distinct_on.induct) auto

lemma distinct_on_keys: "key ` set (distinct_on key xs) = key ` set xs"
  by (induction key xs rule: distinct_on.induct) auto

lemma distinct_on_distinct: "distinct (map key (distinct_on key xs))"
proof (induction key xs rule: distinct_on.induct)
  case (2 key x xs)
  have "key x \<notin> key ` set (distinct_on key (filter (\<lambda>y. key y \<noteq> key x) xs))"
    using distinct_on_subset [of key "filter (\<lambda>y. key y \<noteq> key x) xs"] by auto
  with 2 show ?case by simp
qed simp

lemma lockstep_aligned:
  "lockstep (map f xs) (map g xs) = map (\<lambda>x. (f x, g x)) xs"
  by (induction xs) auto

lemma path_step_docid_entry:
  assumes "docid_pair e = Some (t, i)"
  shows "path_step (Key ''type'') e = [JStr t]" and "path_step (Key ''id'') e = [JStr i]"
  using assms by (cases e; simp split: option.splits json.splits)+

lemma field_of_entries:
  assumes "list_all (\<lambda>e. docid_pair e \<noteq> None) es"
  shows "concat (map (path_step (Key ''type'')) es) = map (\<lambda>e. JStr (fst (the (docid_pair e)))) es"
    and "concat (map (path_step (Key ''id'')) es) = map (\<lambda>e. JStr (snd (the (docid_pair e)))) es"
  using assms by (induction es) (auto simp: path_step_docid_entry)

lemma item_rows_of_record:
  assumes "well_formed_docids b"
  shows "lockstep
        (jsonb_array_elements_text out
           (jsonb_path_query_array b [Key ''docid'', AnyElement, Key ''type'']))
        (jsonb_array_elements_text out
           (jsonb_path_query_array b [Key ''docid'', AnyElement, Key ''id'']))
      = map (\<lambda>e. (Some (fst (the (docid_pair e))), Some (snd (the (docid_pair e))))) (docids b)"
proof (cases b)
  case (JObj kvs)
  show ?thesis
  proof (cases "map_of kvs ''docid''")
    case None
    with JObj show ?thesis
      by (simp add: jsonb_array_elements_text_def jsonb_path_query_array_def)
  next
    case (Some d)
    with JObj assms obtain es where d: "d = JArr es"
      and es: "list_all (\<lambda>e. docid_pair e \<noteq> None) es"
      by (cases d) auto
    have "lockstep (map (\<lambda>e. Some (fst (the (docid_pair e)))) es)
                   (map (\<lambda>e. Some (snd (the (docid_pair e)))) es)
          = map (\<lambda>e. (Some (fst (the (docid_pair e))), Some (snd (the (docid_pair e))))) es"
      by (rule lockstep_aligned)
    with JObj Some d show ?thesis
      by (simp add: jsonb_array_elements_text_def jsonb_path_query_array_def
                  field_of_entries [OF es] comp_def)
  qed
qed (use assms in simp_all)

lemma item_rows_well_formed:
  assumes "\<forall>r \<in> set table. well_formed_docids (body r)"
  shows "item_rows out table
       = concat (map (\<lambda>r. map (\<lambda>e. (Some (fst (the (docid_pair e))), Some (snd (the (docid_pair e)))))
                              (docids (body r))) table)"
  using assms by (induction table) (simp_all add: item_rows_def item_rows_of_record)

lemma well_formed_entry:
  assumes "well_formed_docids b" and "e \<in> set (docids b)"
  shows "docid_pair e \<noteq> None"
  using assms by (cases b) (auto simp: list_all_iff split: option.splits json.splits)

text \<open>
  C6, as the code has it. When every body is an object whose \<^verbatim>\<open>docid\<close>, if present, is
  an array of entries that each carry a string \<^verbatim>\<open>type\<close> and a string \<^verbatim>\<open>id\<close>, then,
  in whatever order the store scans the rows, \<^verbatim>\<open>list_doctypes\<close> returns one pair for
  each distinct type among the entries of all records and no other pair, and each returned
  pair is the type and id of one entry of some record.
\<close>

theorem list_doctypes_one_sample_per_type:
  assumes wf: "\<forall>r \<in> set (rows s). well_formed_docids (body r)"
      and scan: "\<forall>xs. mset (scan xs) = mset xs"
  shows "distinct (map fst (fst (list_doctypes out scan s)))
       \<and> set (map fst (fst (list_doctypes out scan s)))
           = {Some t | t. \<exists>r \<in> set (rows s). \<exists>e \<in> set (docids (body r)). \<exists>i.
                 docid_pair e = Some (t, i)}
       \<and> (\<forall>(doctype, sample_id) \<in> set (fst (list_doctypes out scan s)).
             \<exists>r \<in> set (rows s). \<exists>e \<in> set (docids (body r)). \<exists>t i.
               docid_pair e = Some (t, i) \<and> doctype = Some t \<and> sample_id = Some i)"
proof -
  let ?items = "item_rows out (rows s)"
  let ?pairs = "\<lambda>r. map (\<lambda>e. (Some (fst (the (docid_pair e))), Some (snd (the (docid_pair e)))))
                         (docids (body r))"
  have res: "fst (list_doctypes out scan s) = distinct_on fst (scan ?items)"
    by (simp add: list_doctypes_def)
  have set_scan: "set (scan ?items) = set ?items"
    using scan by (metis set_mset_mset)
  have items: "?items = concat (map ?pairs (rows s))"
    using wf by (rule item_rows_well_formed)
  have entry: "docid_pair e \<noteq> None" if "r \<in> set (rows s)" "e \<in> set (docids (body r))" for r e
    using wf that well_formed_entry by blast
  have set_items: "set ?items = {(Some t, Some i) | t i.
       \<exists>r \<in> set (rows s). \<exists>e \<in> set (docids (body r)). docid_pair e = Some (t, i)}"
    (is "_ = ?S")
  proof
    show "set ?items \<subseteq> ?S"
    proof
      fix x assume "x \<in> set ?items"
      then obtain r e where r: "r \<in> set (rows s)" and e: "e \<in> set (docids (body r))"
        and x: "x = (Some (fst (the (docid_pair e))), Some (snd (the (docid_pair e))))"
        unfolding items by auto
      from entry [OF r e] obtain t i where "docid_pair e = Some (t, i)" by auto
      with r e x show "x \<in> ?S" by auto
    qed
    show "?S \<subseteq> set ?items"
      unfolding items by (auto simp: image_iff) force
  qed
  have k: "set (map fst (distinct_on fst (scan ?items))) = fst ` set ?items"
    using distinct_on_keys [of fst "scan ?items"] set_scan by simp
  have sub: "set (distinct_on fst (scan ?items)) \<subseteq> set ?items"
    using distinct_on_subset [of fst "scan ?items"] set_scan by simp
  show ?thesis
    unfolding res
  proof (intro conjI)
    show "distinct (map fst (distinct_on fst (scan ?items)))"
      by (rule distinct_on_distinct)
    show "set (map fst (distinct_on fst (scan ?items)))
        = {Some t | t. \<exists>r \<in> set (rows s). \<exists>e \<in> set (docids (body r)). \<exists>i.
              docid_pair e = Some (t, i)}"
      unfolding k set_items by (auto simp: image_iff) blast+
    show "\<forall>(doctype, sample_id) \<in> set (distinct_on fst (scan ?items)).
             \<exists>r \<in> set (rows s). \<exists>e \<in> set (docids (body r)). \<exists>t i.
               docid_pair e = Some (t, i) \<and> doctype = Some t \<and> sample_id = Some i"
      using sub unfolding set_items by fastforce
  qed
qed

lemma example_item_rows:
  "item_rows example_out (rows example_store)
     = [(Some ''RFC'', Some ''RFC 1''), (Some ''DOI'', Some ''10.17487/RFC0001''),
        (Some ''RFC'', Some ''rfc 1''), (Some ''IETF'', Some ''RFC 3''),
        (Some ''ISO'', Some ''ISO 4'')]"
  by (simp add: item_rows_def jsonb_path_query_array_def jsonb_array_elements_text_def
        example_store_def rfc1_a_def rfc1_b_def rfc2_blank_def rfc3_bare_def rfc4_full_def)

theorem list_doctypes_one_sample_per_type_witness:
  "fst (list_doctypes example_out rev example_store)
     = [(Some ''ISO'', Some ''ISO 4''), (Some ''IETF'', Some ''RFC 3''),
        (Some ''RFC'', Some ''rfc 1''), (Some ''DOI'', Some ''10.17487/RFC0001'')] \<and>
   distinct (map fst (fst (list_doctypes example_out rev example_store))) \<and>
   (\<exists>r \<in> set (rows example_store). \<exists>e \<in> set (docids (body r)).
       docid_pair e = Some (''RFC'', ''rfc 1''))"
proof -
  have wf: "\<forall>r \<in> set (rows example_store). well_formed_docids (body r)"
    by (simp add: example_store_def rfc1_a_def rfc1_b_def rfc2_blank_def rfc3_bare_def
          rfc4_full_def)
  have scan: "\<forall>xs :: item list. mset (rev xs) = mset xs" by simp
  have run: "fst (list_doctypes example_out rev example_store)
     = [(Some ''ISO'', Some ''ISO 4''), (Some ''IETF'', Some ''RFC 3''),
        (Some ''RFC'', Some ''rfc 1''), (Some ''DOI'', Some ''10.17487/RFC0001'')]"
    by (simp add: list_doctypes_def example_item_rows)
  have sample: "(Some ''RFC'', Some ''rfc 1'')
                  \<in> set (fst (list_doctypes example_out rev example_store))"
    unfolding run by simp
  note all = list_doctypes_one_sample_per_type [OF wf scan, of example_out]
  from all have "distinct (map fst (fst (list_doctypes example_out rev example_store)))"
    by (rule conjunct1)
  moreover from all sample
  have "\<exists>r \<in> set (rows example_store). \<exists>e \<in> set (docids (body r)).
          docid_pair e = Some (''RFC'', ''rfc 1'')"
    by fastforce
  ultimately show ?thesis using run by simp
qed

text \<open>
  C6, as the claim states it, fails. The record of this store has two document
  identifiers, \<open>A\<close> without a type and \<open>B\<close> of type \<open>T\<close>. \<^verbatim>\<open>list_doctypes\<close> returns
  \<open>A\<close> as the sample of type \<open>T\<close>, a pairing that no entry has, and a second pair with
  no type at all.
\<close>

theorem untyped_docid_counterexample:
  "docids (body untyped_first)
     = [JObj [(''id'', JStr ''A'')], JObj [(''type'', JStr ''T''), (''id'', JStr ''B'')]] \<and>
   fst (list_doctypes example_out id untyped_store)
     = [(Some ''T'', Some ''A''), (None, Some ''B'')]"
  by (simp add: list_doctypes_def item_rows_def jsonb_path_query_array_def
        jsonb_array_elements_text_def untyped_store_def untyped_first_def)

section \<open>The serializer\<close>

lemma collect_all_right:
  "(\<forall>r \<in> set rs. \<exists>x. r = Inr x) \<Longrightarrow> \<exists>xs. collect rs = Inr xs"
proof (induction rs)
  case Nil
  show ?case by simp
next
  case (Cons r rs)
  then obtain x xs where "r = Inr x" "collect rs = Inr xs" by auto
  then show ?case by simp
qed

text \<open>
  C8. \<^verbatim>\<open>create_author\<close> fails with \<^verbatim>\<open>ValueError\<close> when the role is unset or is not
  in the role table, and when neither an organization nor a person is set. For a
  contributor with a recognized role it succeeds with an \<^verbatim>\<open>author\<close> element, which has
  an \<^verbatim>\<open>organization\<close> child when the organization is set and a \<^verbatim>\<open>person\<close> child when
  the person is set.
\<close>

theorem create_author_validation:
  "(role c = None \<or> (\<exists>r. role c = Some r \<and> map_of role_table r = None) \<longrightarrow>
      (\<exists>m. create_author role_table c = Inl (ValueError m)))
 \<and> (organization c = None \<and> person c = None \<longrightarrow>
      (\<exists>m. create_author role_table c = Inl (ValueError m)))
 \<and> (\<forall>r x org. role c = Some r \<and> map_of role_table r = Some x \<and> organization c = Some org \<longrightarrow>
      (\<exists>el. create_author role_table c = Inr el \<and> tag el = ''author'' \<and>
            (\<exists>sub \<in> set (children el). tag sub = ''organization'')))
 \<and> (\<forall>r x p. role c = Some r \<and> map_of role_table r = Some x \<and> person c = Some p \<longrightarrow>
      (\<exists>el. create_author role_table c = Inr el \<and> tag el = ''author'' \<and>
            (\<exists>sub \<in> set (children el). tag sub = ''person'')))"
proof (intro conjI allI impI)
  assume "role c = None \<or> (\<exists>r. role c = Some r \<and> map_of role_table r = None)"
  then show "\<exists>m. create_author role_table c = Inl (ValueError m)"
    by (auto simp: create_author_def)
next
  assume "organization c = None \<and> person c = None"
  then have "party c = None"
    by (simp add: organization_def person_def split: option.splits Party.splits)
  then show "\<exists>m. create_author role_table c = Inl (ValueError m)"
    by (simp add: create_author_def split: option.splits)
next
  fix r x org
  assume "role c = Some r \<and> map_of role_table r = Some x \<and> organization c = Some org"
  then have "role c = Some r" "map_of role_table r = Some x" "party c = Some (OfOrganization org)"
    by (simp_all add: organization_def split: option.splits Party.splits)
  then show "\<exists>el. create_author role_table c = Inr el \<and> tag el = ''author'' \<and>
            (\<exists>sub \<in> set (children el). tag sub = ''organization'')"
    by (simp add: create_author_def)
next
  fix r x p
  assume "role c = Some r \<and> map_of role_table r = Some x \<and> person c = Some p"
  then have "role c = Some r" "map_of role_table r = Some x" "party c = Some (OfPerson p)"
    by (simp_all add: person_def split: option.splits Party.splits)
  then show "\<exists>el. create_author role_table c = Inr el \<and> tag el = ''author'' \<and>
            (\<exists>sub \<in> set (children el). tag sub = ''person'')"
    by (simp add: create_author_def)
qed


theorem create_author_validation_witness:
  "(\<exists>m. create_author example_roles (contributor_organization\<lparr>role := None\<rparr>) = Inl (ValueError m)) \<and>
   (\<exists>m. create_author example_roles (contributor_person\<lparr>party := None\<rparr>) = Inl (ValueError m)) \<and>
   (\<exists>el. create_author example_roles contributor_organization = Inr el \<and> tag el = ''author'' \<and>
         (\<exists>sub \<in> set (children el). tag sub = ''organization'')) \<and>
   (\<exists>el. create_author example_roles contributor_person = Inr el \<and> tag el = ''author'' \<and>
         (\<exists>sub \<in> set (children el). tag sub = ''person''))"
proof (intro conjI)
  have "role (contributor_organization\<lparr>role := None\<rparr>) = None" by simp
  with create_author_validation [of "contributor_organization\<lparr>role := None\<rparr>" example_roles,
         THEN conjunct1]
  show "\<exists>m. create_author example_roles (contributor_organization\<lparr>role := None\<rparr>)
             = Inl (ValueError m)"
    by blast
next
  have "organization (contributor_person\<lparr>party := None\<rparr>) = None \<and>
        person (contributor_person\<lparr>party := None\<rparr>) = None"
    by (simp add: organization_def person_def)
  with create_author_validation [of "contributor_person\<lparr>party := None\<rparr>" example_roles,
         THEN conjunct2, THEN conjunct1]
  show "\<exists>m. create_author example_roles (contributor_person\<lparr>party := None\<rparr>)
             = Inl (ValueError m)"
    by blast
next
  have "role contributor_organization = Some ''publisher'' \<and>
        map_of example_roles ''publisher'' = Some ''publisher'' \<and>
        organization contributor_organization
          = Some \<lparr>organization_name = ''Internet Engineering Task Force''\<rparr>"
    by (simp add: contributor_organization_def example_roles_def organization_def)
  with create_author_validation [of contributor_organization example_roles,
         THEN conjunct2, THEN conjunct2, THEN conjunct1]
  show "\<exists>el. create_author example_roles contributor_organization = Inr el \<and> tag el = ''author'' \<and>
         (\<exists>sub \<in> set (children el). tag sub = ''organization'')"
    by blast
next
  have "role contributor_person = Some ''author'' \<and>
        map_of example_roles ''author'' = Some ''author'' \<and>
        person contributor_person
          = Some \<lparr>initial = [english ''Mr''], surname = english ''Cerf'',
                   completename = english ''Mr Cerf''\<rparr>"
    by (simp add: contributor_person_def example_roles_def person_def)
  with create_author_validation [of contributor_person example_roles,
         THEN conjunct2, THEN conjunct2, THEN conjunct2]
  show "\<exists>el. create_author example_roles contributor_person = Inr el \<and> tag el = ''author'' \<and>
         (\<exists>sub \<in> set (children el). tag sub = ''person'')"
    by blast
qed


lemma create_reference_untitled:
  "title item = [] \<Longrightarrow> \<exists>m. create_reference role_table item = Inl (ValueError m)"
  by (cases item) simp

lemma create_reference_root:
  assumes "create_reference role_table item = Inr el"
  shows "tag el = ''reference'' \<and> title item \<noteq> []"
proof (cases item)
  case (BibliographicItem i titles ds fr contributors dates relations ty dn ls)
  show ?thesis
  proof (cases "titles = []")
    case True
    with assms BibliographicItem show ?thesis by (simp split: if_splits)
  next
    case False
    with assms BibliographicItem show ?thesis
      by (simp split: sum.splits) auto
  qed
qed

lemma create_reference_builds:
  assumes t: "title item \<noteq> []"
      and cs: "\<forall>c \<in> set (contributor item). \<exists>a. create_author role_table c = Inr a"
      and rs: "\<forall>rel \<in> set (relation item). \<exists>n. create_reference role_table (snd rel) = Inr n"
  shows "\<exists>el. create_reference role_table item = Inr el \<and> tag el = ''reference''"
proof (cases item)
  case (BibliographicItem i titles ds fr contributors dates relations ty dn ls)
  from cs BibliographicItem obtain authors where
    a: "collect (map (create_author role_table) contributors) = Inr authors"
    using collect_all_right [of "map (create_author role_table) contributors"] by auto
  from rs BibliographicItem obtain nested where
    n: "collect (map (\<lambda>(t, b). create_reference role_table b) relations) = Inr nested"
    using collect_all_right [of "map (\<lambda>(t, b). create_reference role_table b) relations"]
    by (auto simp: case_prod_beta)
  from t BibliographicItem have "titles \<noteq> []" by simp
  with a n BibliographicItem show ?thesis by simp
qed

text \<open>
  C7, as the code has it. \<^verbatim>\<open>create_reference\<close> fails with \<^verbatim>\<open>ValueError\<close> whenever
  the item has no title, with or without relations; whenever it succeeds, the item has a
  title and the root of the result is \<^verbatim>\<open>reference\<close>; and it succeeds for an item with
  a title whose contributors and related items all build.
\<close>

theorem create_reference_requires_title:
  "(title item = [] \<longrightarrow> (\<exists>m. create_reference role_table item = Inl (ValueError m)))
 \<and> (\<forall>el. create_reference role_table item = Inr el \<longrightarrow>
        tag el = ''reference'' \<and> title item \<noteq> [])
 \<and> (title item \<noteq> [] \<and>
     (\<forall>c \<in> set (contributor item). \<exists>a. create_author role_table c = Inr a) \<and>
     (\<forall>rel \<in> set (relation item). \<exists>n. create_reference role_table (snd rel) = Inr n) \<longrightarrow>
        (\<exists>el. create_reference role_table item = Inr el \<and> tag el = ''reference''))"
  using create_reference_untitled [of item role_table]
        create_reference_root [of role_table item]
        create_reference_builds [of item role_table]
  by blast


theorem create_reference_requires_title_witness:
  "(\<exists>m. create_reference example_roles bibitem_without_title = Inl (ValueError m)) \<and>
   (\<exists>el. create_reference example_roles bibitem = Inr el \<and> tag el = ''reference'')"
proof
  have "title bibitem_without_title = []"
    by (simp add: bibitem_without_title_def bibitem_with_def)
  with create_reference_requires_title [of bibitem_without_title example_roles, THEN conjunct1]
  show "\<exists>m. create_reference example_roles bibitem_without_title = Inl (ValueError m)"
    by blast
next
  have titled: "title bibitem \<noteq> []"
    by (simp add: bibitem_def bibitem_with_def)
  have "create_author example_roles contributor_organization
          = Inr (Element ''author'' [(''role'', ''publisher'')]
                   [Element ''organization'' [] [Text ''Internet Engineering Task Force'']])"
    by (simp add: create_author_def contributor_organization_def example_roles_def)
  then have authors: "\<forall>c \<in> set (contributor bibitem). \<exists>a. create_author example_roles c = Inr a"
    by (simp add: bibitem_def bibitem_with_def)
  have "\<exists>n. create_reference example_roles related_item = Inr n"
    by (simp add: related_item_def)
  then have related:
    "\<forall>rel \<in> set (relation bibitem). \<exists>n. create_reference example_roles (snd rel) = Inr n"
    by (simp add: bibitem_def bibitem_with_def)
  from titled authors related
       create_reference_requires_title [of bibitem example_roles, THEN conjunct2, THEN conjunct2]
  show "\<exists>el. create_reference example_roles bibitem = Inr el \<and> tag el = ''reference''"
    by blast
qed

text \<open>
  C7, as the claim states it, fails on the input of the test
  \<^verbatim>\<open>test_fail_create_reference_if_missing_titles\<close>: the item has a relation and no
  title, and \<^verbatim>\<open>create_reference\<close> fails.
\<close>

theorem missing_title_with_relation_counterexample:
  "title bibitem_without_title = [] \<and>
   relation bibitem_without_title = [(''includes'', related_item)] \<and>
   create_reference example_roles bibitem_without_title = Inl (ValueError ''missing titles'')"
  by (simp add: bibitem_without_title_def bibitem_with_def)

end
